theory Spec2Isabelle
  imports Complex_Main
begin

section \<open>Python values\<close>

text \<open>
  A Python \<open>str\<close> is modelled by the bytes of its UTF-8 encoding (\<open>string\<close>).
  Concatenation, prefix tests, the substring test and the ASCII character classes of the
  regular expressions commute with that encoding.  \<open>Optional[str]\<close> is
  \<open>string option\<close>, \<open>Optional[int]\<close> is \<open>int option\<close>.

  Exceptions are values.  Every exception this package raises itself is a
  \<open>ValueError\<close> or an \<open>ImportError\<close> carrying its message; \<open>IndexError\<close> and
  \<open>AttributeError\<close> come from reading a backend response; \<open>Raised m\<close> is an
  exception (a subclass of \<open>Exception\<close>) raised inside an external library call,
  \<open>m\<close> being its \<open>str(e)\<close>.
\<close>

datatype error =
    ValueError string
  | ImportError string
  | IndexError
  | AttributeError
  | Raised string

text \<open>Truthiness of an \<open>Optional[str]\<close> and Python's \<open>a or b\<close> on such values.\<close>

fun truthy_str :: "string option \<Rightarrow> bool" where
  "truthy_str None = False"
| "truthy_str (Some s) = (s \<noteq> [])"

definition py_or :: "string option \<Rightarrow> string option \<Rightarrow> string option" where
  "py_or a b = (if truthy_str a then a else b)"

text \<open>\<open>s.startswith(p)\<close> and the substring test \<open>sub in s\<close>.\<close>

fun startswith :: "string \<Rightarrow> string \<Rightarrow> bool" where
  "startswith s [] = True"
| "startswith [] (p # ps) = False"
| "startswith (c # cs) (p # ps) = (c = p \<and> startswith cs ps)"

fun py_in :: "string \<Rightarrow> string \<Rightarrow> bool" where
  "py_in sub [] = startswith [] sub"
| "py_in sub (c # cs) = (startswith (c # cs) sub \<or> py_in sub cs)"

text \<open>\<open>sep.join(xs)\<close>.\<close>

fun py_join :: "string \<Rightarrow> string list \<Rightarrow> string" where
  "py_join sep [] = []"
| "py_join sep [x] = x"
| "py_join sep (x # y # ys) = x @ sep @ py_join sep (y # ys)"


section \<open>Module \<open>transcript\<close>\<close>

subsection \<open>The two URL patterns\<close>

text \<open>
  Both patterns of \<open>extract_video_id\<close> have the shape
  \<open>(?:lit1|lit2|...)([^&\n?#]+)\<close>: an alternation of literal markers followed by
  the capture group, a greedy non-empty run of characters other than \<open>&\<close>, newline,
  \<open>?\<close> and \<open>#\<close>.  The group ends the pattern, so the greedy run is the longest one.
  \<open>re.search\<close> tries the start positions from left to right and, at each position,
  the alternatives in the order written; it returns the first success.
\<close>

definition stop_chars :: "char set" where
  "stop_chars = {CHR ''&'', CHR 0x0A, CHR ''?'', CHR ''#''}"

definition group1 :: "string \<Rightarrow> string" where
  "group1 s = takeWhile (\<lambda>c. c \<notin> stop_chars) s"

text \<open>A match of the pattern that starts exactly at the head of \<open>s\<close>: its group.\<close>

fun match_here :: "string list \<Rightarrow> string \<Rightarrow> string option" where
  "match_here [] s = None"
| "match_here (p # ps) s =
     (if startswith s p \<and> group1 (drop (length p) s) \<noteq> []
      then Some (group1 (drop (length p) s))
      else match_here ps s)"

text \<open>\<open>re.search(pattern, url)\<close>, giving \<open>match.group(1)\<close> of the leftmost match.\<close>

fun re_search :: "string list \<Rightarrow> string \<Rightarrow> string option" where
  "re_search alts [] = match_here alts []"
| "re_search alts (c # cs) =
     (case match_here alts (c # cs) of
        Some g \<Rightarrow> Some g
      | None \<Rightarrow> re_search alts cs)"

definition watch_markers :: "string list" where
  "watch_markers =
     [''youtube.com/watch?v='', ''youtu.be/'', ''youtube.com/embed/'',
      ''youtube.com/v/'', ''youtube.com/?v='']"

definition shorts_markers :: "string list" where
  "shorts_markers = [''youtube.com/shorts/'']"

definition patterns :: "string list list" where
  "patterns = [watch_markers, shorts_markers]"

text \<open>The \<open>for pattern in patterns\<close> loop: the first pattern that matches wins.\<close>

fun search_patterns :: "string list list \<Rightarrow> string \<Rightarrow> string option" where
  "search_patterns [] url = None"
| "search_patterns (p # ps) url =
     (case re_search p url of
        Some g \<Rightarrow> Some g
      | None \<Rightarrow> search_patterns ps url)"

definition extract_video_id :: "string \<Rightarrow> error + string" where
  "extract_video_id url =
     (case search_patterns patterns url of
        Some g \<Rightarrow> Inr g
      | None \<Rightarrow> Inl (ValueError (''Could not extract video ID from URL: '' @ url)))"


text \<open>
  For stating where a link's marker stands: \<open>marker_inside alts pre s\<close> holds when,
  in the string \<open>pre @ s\<close>, one of the markers \<open>alts\<close> begins at a position
  inside \<open>pre\<close>.
\<close>

fun marker_inside :: "string list \<Rightarrow> string \<Rightarrow> string \<Rightarrow> bool" where
  "marker_inside alts [] s = False"
| "marker_inside alts (c # cs) s =
     (list_ex (startswith (c # cs @ s)) alts \<or> marker_inside alts cs s)"


subsection \<open>The captioning service and the process environment\<close>

text \<open>
  The dictionaries of a transcript all have the keys \<open>text\<close>, \<open>start\<close> and
  \<open>duration\<close>.
\<close>

record segment =
  seg_text :: string
  seg_start :: real
  seg_duration :: real

text \<open>
  The external blocks of a hosted messages response: only a text block has a
  \<open>text\<close> attribute.
\<close>

datatype block = TextBlock string | OtherBlock

text \<open>
  The calls that leave the package, in the order made: the captioning service, the two
  hosted client constructors and the three generation backends.  The fixed sampling
  options of the three generation calls (temperature 0.3, at most 1000 tokens) are
  constants and are not recorded.
\<close>

datatype call =
    GetTranscript string "string list"
  | NewOpenAIClient string
  | NewAnthropicClient string
  | OllamaGenerate string string
  | ChatCompletionsCreate string string string string
  | MessagesCreate string string string string

text \<open>
  What surrounds the package: \<open>os.environ\<close>, whether the optional SDK packages
  can be imported, and the answers of the external services.
  \<open>youtube_get_transcript\<close> answers \<open>Inl m\<close> when the service raises an exception
  \<open>e\<close> with \<open>str(e) = m\<close>.  A chat completion answers the \<open>message.content\<close> of
  each choice (\<open>None\<close> for a null content); a messages call answers its content
  blocks.  The hosted backends take the client's credential, the model, the system
  message and the user message.
\<close>

record world =
  environ :: "string \<rightharpoonup> string"
  openai_importable :: bool
  anthropic_importable :: bool
  youtube_get_transcript :: "string \<Rightarrow> string list \<Rightarrow> string + segment list"
  ollama_generate :: "string \<Rightarrow> string \<Rightarrow> error + string"
  chat_completions_create ::
    "string \<Rightarrow> string \<Rightarrow> string \<Rightarrow> string \<Rightarrow> error + string option list"
  messages_create :: "string \<Rightarrow> string \<Rightarrow> string \<Rightarrow> string \<Rightarrow> error + block list"

text \<open>\<open>os.getenv(k)\<close> and \<open>os.getenv(k, default)\<close>.\<close>

definition getenv :: "world \<Rightarrow> string \<Rightarrow> string option" where
  "getenv w k = environ w k"

definition getenv_default :: "world \<Rightarrow> string \<Rightarrow> string \<Rightarrow> string" where
  "getenv_default w k d = (case environ w k of None \<Rightarrow> d | Some v \<Rightarrow> v)"

subsection \<open>\<open>get_transcript\<close> and \<open>get_transcript_text\<close>\<close>

definition get_transcript ::
  "world \<Rightarrow> string \<Rightarrow> string list \<Rightarrow> call list \<times> (error + segment list)" where
  "get_transcript w video_id_or_url languages =
     (case (if py_in ''youtube.com'' video_id_or_url \<or> py_in ''youtu.be'' video_id_or_url
            then extract_video_id video_id_or_url
            else Inr video_id_or_url) of
        Inl e \<Rightarrow> ([], Inl e)
      | Inr video_id \<Rightarrow>
          ([GetTranscript video_id languages],
           case youtube_get_transcript w video_id languages of
             Inr transcript \<Rightarrow> Inr transcript
           | Inl m \<Rightarrow> Inl (ValueError (''Could not retrieve transcript: '' @ m))))"

definition get_transcript_text ::
  "world \<Rightarrow> string \<Rightarrow> string list \<Rightarrow> call list \<times> (error + string)" where
  "get_transcript_text w video_id_or_url languages =
     (case get_transcript w video_id_or_url languages of
        (cs, Inl e) \<Rightarrow> (cs, Inl e)
      | (cs, Inr transcript_segments) \<Rightarrow>
          (cs, Inr (py_join '' '' (map seg_text transcript_segments))))"


section \<open>Module \<open>summarizer\<close>\<close>

subsection \<open>String operations of the standard library\<close>

text \<open>\<open>str(n)\<close> for an \<open>int\<close>: the decimal digits, with a minus sign below zero.\<close>

definition digit_char :: "nat \<Rightarrow> char" where
  "digit_char d = char_of (48 + d)"

fun str_nat :: "nat \<Rightarrow> string" where
  "str_nat n = (if n < 10 then [digit_char n] else str_nat (n div 10) @ [digit_char (n mod 10)])"

declare str_nat.simps [simp del]

definition str_int :: "int \<Rightarrow> string" where
  "str_int i = (if i < 0 then CHR ''-'' # str_nat (nat (- i)) else str_nat (nat i))"

text \<open>
  \<open>s.lower()\<close> on the ASCII letters.  Bytes of code points beyond ASCII are left as
  they are: Python's full case mapping is not modelled.  No string with such a code
  point lowers to one of the three provider names, so the branch \<open>get_provider\<close> takes
  is the one Python takes.
\<close>

definition lower_char :: "char \<Rightarrow> char" where
  "lower_char c =
     (if 65 \<le> (of_char c :: nat) \<and> (of_char c :: nat) \<le> 90
      then char_of (of_char c + (32 :: nat)) else c)"

definition lower :: "string \<Rightarrow> string" where
  "lower s = map lower_char s"

text \<open>
  \<open>s.strip()\<close> removes the leading and the trailing white space.  The code points
  Python counts as white space, in UTF-8: the ASCII ones (\<open>0x09\<close> to \<open>0x0D\<close>,
  \<open>0x1C\<close> to \<open>0x1F\<close>, space), \<open>U+0085\<close>, \<open>U+00A0\<close>, \<open>U+1680\<close>, \<open>U+2000\<close> to
  \<open>U+200A\<close>, \<open>U+2028\<close>, \<open>U+2029\<close>, \<open>U+202F\<close>, \<open>U+205F\<close> and \<open>U+3000\<close>.
\<close>

definition whitespace :: "string list" where
  "whitespace =
     [[CHR 0x09], [CHR 0x0A], [CHR 0x0B], [CHR 0x0C], [CHR 0x0D],
      [CHR 0x1C], [CHR 0x1D], [CHR 0x1E], [CHR 0x1F], [CHR 0x20],
      [CHR 0xC2, CHR 0x85], [CHR 0xC2, CHR 0xA0], [CHR 0xE1, CHR 0x9A, CHR 0x80],
      [CHR 0xE2, CHR 0x80, CHR 0x80], [CHR 0xE2, CHR 0x80, CHR 0x81],
      [CHR 0xE2, CHR 0x80, CHR 0x82], [CHR 0xE2, CHR 0x80, CHR 0x83],
      [CHR 0xE2, CHR 0x80, CHR 0x84], [CHR 0xE2, CHR 0x80, CHR 0x85],
      [CHR 0xE2, CHR 0x80, CHR 0x86], [CHR 0xE2, CHR 0x80, CHR 0x87],
      [CHR 0xE2, CHR 0x80, CHR 0x88], [CHR 0xE2, CHR 0x80, CHR 0x89],
      [CHR 0xE2, CHR 0x80, CHR 0x8A], [CHR 0xE2, CHR 0x80, CHR 0xA8],
      [CHR 0xE2, CHR 0x80, CHR 0xA9], [CHR 0xE2, CHR 0x80, CHR 0xAF],
      [CHR 0xE2, CHR 0x81, CHR 0x9F], [CHR 0xE3, CHR 0x80, CHR 0x80]]"

text \<open>The first of the sequences \<open>ws\<close> that \<open>s\<close> starts with, if any.\<close>

fun leading :: "string list \<Rightarrow> string \<Rightarrow> string option" where
  "leading [] s = None"
| "leading (w # ws) s = (if w \<noteq> [] \<and> startswith s w then Some w else leading ws s)"

lemma leading_Some: "leading ws s = Some w \<Longrightarrow> w \<noteq> [] \<and> startswith s w"
  by (induction ws) (auto split: if_splits)

lemma startswith_length: "startswith s w \<Longrightarrow> length w \<le> length s"
  by (induction s w rule: startswith.induct) auto

function strip_leading :: "string list \<Rightarrow> string \<Rightarrow> string" where
  "strip_leading ws s =
     (case leading ws s of
        None \<Rightarrow> s
      | Some w \<Rightarrow> strip_leading ws (drop (length w) s))"
  by pat_completeness auto
termination
proof (relation "measure (\<lambda>(ws, s). length s)")
  show "wf (measure (\<lambda>(ws, s). length s))" by simp
next
  fix ws :: "string list" and s w :: string
  assume "leading ws s = Some w"
  then have "w \<noteq> []" and "length w \<le> length s"
    using leading_Some startswith_length by blast+
  then show "((ws, drop (length w) s), (ws, s)) \<in> measure (\<lambda>(ws, s). length s)"
    by (cases w) auto
qed

declare strip_leading.simps [simp del]

definition lstrip :: "string \<Rightarrow> string" where
  "lstrip s = strip_leading whitespace s"

definition rstrip :: "string \<Rightarrow> string" where
  "rstrip s = rev (strip_leading (map rev whitespace) (rev s))"

definition strip :: "string \<Rightarrow> string" where
  "strip s = rstrip (lstrip s)"



text \<open>
  \<open>kwargs.get(k) or default\<close> where the default is a \<open>str\<close>.  Keyword arguments are
  a map from names to strings; a keyword bound to \<open>None\<close> acts as an absent one here.
\<close>

definition py_or_str :: "string option \<Rightarrow> string \<Rightarrow> string" where
  "py_or_str a b = (case a of None \<Rightarrow> b | Some s \<Rightarrow> if s = [] then b else s)"

subsection \<open>The providers\<close>

text \<open>
  An instance of a subclass of \<open>LLMProvider\<close> with its attributes: the model name
  and, for a hosted provider, the credential its client was built from.
\<close>

datatype provider =
    OllamaProvider string
  | OpenAIProvider string string
  | AnthropicProvider string string

definition OllamaProvider_init :: "string \<Rightarrow> call list \<times> (error + provider)" where
  "OllamaProvider_init model_name = ([], Inr (OllamaProvider model_name))"

definition OpenAIProvider_init ::
  "world \<Rightarrow> string \<Rightarrow> string option \<Rightarrow> call list \<times> (error + provider)" where
  "OpenAIProvider_init w model_name api_key =
     (case py_or api_key (getenv w ''OPENAI_API_KEY'') of
        None \<Rightarrow>
          ([], Inl (ValueError
            ''OpenAI API key is required. Set OPENAI_API_KEY environment variable or pass explicitly.''))
      | Some k \<Rightarrow>
          if k = [] then
            ([], Inl (ValueError
              ''OpenAI API key is required. Set OPENAI_API_KEY environment variable or pass explicitly.''))
          else if openai_importable w then
            ([NewOpenAIClient k], Inr (OpenAIProvider model_name k))
          else
            ([], Inl (ImportError
              (''OpenAI package is required for OpenAIProvider. Install with ''
               @ [CHR 0x27] @ ''poetry add openai'' @ [CHR 0x27] @ ''.''))))"

definition AnthropicProvider_init ::
  "world \<Rightarrow> string \<Rightarrow> string option \<Rightarrow> call list \<times> (error + provider)" where
  "AnthropicProvider_init w model_name api_key =
     (case py_or api_key (getenv w ''ANTHROPIC_API_KEY'') of
        None \<Rightarrow>
          ([], Inl (ValueError
            ''Anthropic API key is required. Set ANTHROPIC_API_KEY environment variable or pass explicitly.''))
      | Some k \<Rightarrow>
          if k = [] then
            ([], Inl (ValueError
              ''Anthropic API key is required. Set ANTHROPIC_API_KEY environment variable or pass explicitly.''))
          else if anthropic_importable w then
            ([NewAnthropicClient k], Inr (AnthropicProvider model_name k))
          else
            ([], Inl (ImportError
              (''Anthropic package is required for AnthropicProvider. Install with ''
               @ [CHR 0x27] @ ''poetry add anthropic'' @ [CHR 0x27] @ ''.''))))"


subsection \<open>\<open>summarize\<close>\<close>

text \<open>
  Each \<open>summarize\<close> builds its prompt, calls its backend once and strips the text of
  the answer.  An exception of the backend call is passed on as it is.
  \<open>if max_length:\<close> holds for an integer other than zero.
\<close>

definition OllamaProvider_summarize ::
  "world \<Rightarrow> string \<Rightarrow> string \<Rightarrow> int option \<Rightarrow> call list \<times> (error + string)" where
  "OllamaProvider_summarize w model_name txt max_length =
     (let prompt0 =
            ''Please provide a concise summary of the following transcript.\<newline>''
            @ ''Focus on the main points and key insights.\<newline>''
            @ ''\<newline>''
            @ ''TRANSCRIPT:\<newline>''
            @ txt @ ''\<newline>''
            @ ''\<newline>''
            @ ''SUMMARY:'';
          prompt =
            (case max_length of
               None \<Rightarrow> prompt0
             | Some n \<Rightarrow>
                 if n \<noteq> 0
                 then prompt0 @ ''\<newline>(Please keep the summary under '' @ str_int n @ '' words)''
                 else prompt0)
      in ([OllamaGenerate model_name prompt],
          case ollama_generate w model_name prompt of
            Inl e \<Rightarrow> Inl e
          | Inr response \<Rightarrow> Inr (strip response)))"

definition OpenAIProvider_summarize ::
  "world \<Rightarrow> string \<Rightarrow> string \<Rightarrow> string \<Rightarrow> int option \<Rightarrow> call list \<times> (error + string)" where
  "OpenAIProvider_summarize w model_name api_key txt max_length =
     (let system_message =
            ''You are a helpful assistant that summarizes transcripts concisely.'';
          user_message0 = ''Please summarize the following transcript:\<newline>\<newline>'' @ txt;
          user_message =
            (case max_length of
               None \<Rightarrow> user_message0
             | Some n \<Rightarrow>
                 if n \<noteq> 0
                 then user_message0 @ ''\<newline>\<newline>Keep the summary under '' @ str_int n @ '' words.''
                 else user_message0)
      in ([ChatCompletionsCreate api_key model_name system_message user_message],
          case chat_completions_create w api_key model_name system_message user_message of
            Inl e \<Rightarrow> Inl e
          | Inr [] \<Rightarrow> Inl IndexError
          | Inr (None # choices) \<Rightarrow> Inl AttributeError
          | Inr (Some content # choices) \<Rightarrow> Inr (strip content)))"

definition AnthropicProvider_summarize ::
  "world \<Rightarrow> string \<Rightarrow> string \<Rightarrow> string \<Rightarrow> int option \<Rightarrow> call list \<times> (error + string)" where
  "AnthropicProvider_summarize w model_name api_key txt max_length =
     (let system_message =
            ''Summarize the provided transcript concisely, focusing on key points and insights.'';
          user_message0 = ''Here is the transcript to summarize:\<newline>\<newline>'' @ txt;
          user_message =
            (case max_length of
               None \<Rightarrow> user_message0
             | Some n \<Rightarrow>
                 if n \<noteq> 0
                 then user_message0 @ ''\<newline>\<newline>Keep the summary under '' @ str_int n @ '' words.''
                 else user_message0)
      in ([MessagesCreate api_key model_name system_message user_message],
          case messages_create w api_key model_name system_message user_message of
            Inl e \<Rightarrow> Inl e
          | Inr [] \<Rightarrow> Inl IndexError
          | Inr (OtherBlock # blocks) \<Rightarrow> Inl AttributeError
          | Inr (TextBlock t # blocks) \<Rightarrow> Inr (strip t)))"

text \<open>\<open>provider.summarize(text, max_length)\<close>: the method of the instance's class.\<close>

fun summarize :: "world \<Rightarrow> provider \<Rightarrow> string \<Rightarrow> int option \<Rightarrow> call list \<times> (error + string)" where
  "summarize w (OllamaProvider model_name) txt max_length =
     OllamaProvider_summarize w model_name txt max_length"
| "summarize w (OpenAIProvider model_name api_key) txt max_length =
     OpenAIProvider_summarize w model_name api_key txt max_length"
| "summarize w (AnthropicProvider model_name api_key) txt max_length =
     AnthropicProvider_summarize w model_name api_key txt max_length"

subsection \<open>\<open>get_provider\<close> and \<open>summarize_text\<close>\<close>

text \<open>
  Line 201 of the module: \<open>provider_name or os.getenv("SUMMARY_PROVIDER",
  "ollama").lower()\<close>.  The method call binds tighter than \<open>or\<close>: only the value read
  from the environment is lowered.
\<close>

definition selector :: "world \<Rightarrow> string option \<Rightarrow> string" where
  "selector w provider_name =
     py_or_str provider_name (lower (getenv_default w ''SUMMARY_PROVIDER'' ''ollama''))"

definition get_provider ::
  "world \<Rightarrow> string option \<Rightarrow> (string \<rightharpoonup> string) \<Rightarrow> call list \<times> (error + provider)" where
  "get_provider w provider_name kwargs =
     (let provider_name = selector w provider_name in
      if provider_name = ''ollama'' then
        (let model_name =
               py_or_str (kwargs ''model_name'') (getenv_default w ''OLLAMA_MODEL'' ''llama3.2'')
         in OllamaProvider_init model_name)
      else if provider_name = ''openai'' then
        (let model_name =
               py_or_str (kwargs ''model_name'') (getenv_default w ''OPENAI_MODEL'' ''gpt-3.5-turbo'');
             api_key = py_or (kwargs ''api_key'') (getenv w ''OPENAI_API_KEY'')
         in OpenAIProvider_init w model_name api_key)
      else if provider_name = ''anthropic'' then
        (let model_name =
               py_or_str (kwargs ''model_name'')
                 (getenv_default w ''ANTHROPIC_MODEL'' ''claude-3-haiku-20240307'');
             api_key = py_or (kwargs ''api_key'') (getenv w ''ANTHROPIC_API_KEY'')
         in AnthropicProvider_init w model_name api_key)
      else ([], Inl (ValueError (''Unknown provider: '' @ provider_name))))"



section \<open>A concrete environment\<close>

text \<open>
  A world for running the functions on concrete inputs: no environment variable is set,
  both SDK packages can be imported, the captioning service knows the videos \<open>abc\<close>
  (two segments) and \<open>empty\<close> (no segment) and raises for every other one, and each
  generation backend answers the text \<open>X\<close>, the chat backend with white space around it.
\<close>

definition mock_world :: world where
  "mock_world =
     \<lparr>environ = Map.empty,
      openai_importable = True,
      anthropic_importable = True,
      youtube_get_transcript =
        (\<lambda>v langs.
           if v = ''abc''
           then Inr [\<lparr>seg_text = ''Hello'', seg_start = 0, seg_duration = 1\<rparr>,
                     \<lparr>seg_text = ''world'', seg_start = 1, seg_duration = 1\<rparr>]
           else if v = ''empty'' then Inr []
           else Inl ''no captions''),
      ollama_generate = (\<lambda>m p. Inr ''X''),
      chat_completions_create = (\<lambda>k m s u. Inr [Some '' X '']),
      messages_create = (\<lambda>k m s u. Inr [TextBlock ''X'']) \<rparr>"


section \<open>Properties of the module \<open>transcript\<close>\<close>

subsection \<open>Searching for a pattern\<close>

lemmas url_defs = extract_video_id_def patterns_def watch_markers_def shorts_markers_def
  group1_def stop_chars_def


lemma startswith_iff: "startswith s m \<longleftrightarrow> (\<exists>r. s = m @ r)"
  by (induction s m rule: startswith.induct) auto

lemma group1_run:
  assumes "set ident \<inter> stop_chars = {}" and "rest = [] \<or> hd rest \<in> stop_chars"
  shows "group1 (ident @ rest) = ident"
proof -
  have all: "\<And>c. c \<in> set ident \<Longrightarrow> c \<notin> stop_chars"
    using assms(1) by auto
  have "takeWhile (\<lambda>c. c \<notin> stop_chars) rest = []"
    using assms(2) by (cases rest) auto
  with all show ?thesis
    by (simp add: group1_def takeWhile_append2)
qed

lemma group1_nonempty_iff: "group1 s \<noteq> [] \<longleftrightarrow> (\<exists>c r. s = c # r \<and> c \<notin> stop_chars)"
  by (cases s) (auto simp: group1_def)

lemma match_here_Nil: "match_here alts [] = None"
  by (induction alts) (auto simp: group1_def)

lemma re_search_watch_marker:
  assumes "m \<in> set watch_markers" and "group1 s \<noteq> []"
  shows "re_search watch_markers (m @ s) = Some (group1 s)"
  using assms by (auto simp: watch_markers_def)

lemma re_search_shorts_marker:
  assumes "group1 s \<noteq> []"
  shows "re_search shorts_markers (''youtube.com/shorts/'' @ s) = Some (group1 s)"
  using assms by (auto simp: shorts_markers_def)

lemma match_here_no_marker:
  "\<not> list_ex (startswith t) alts \<Longrightarrow> match_here alts t = None"
  by (induction alts) auto

lemma re_search_past:
  "\<not> marker_inside alts pre s \<Longrightarrow> re_search alts (pre @ s) = re_search alts s"
  by (induction pre) (auto simp: match_here_no_marker)

lemma marker_inside_no_y:
  "CHR ''y'' \<notin> set pre \<Longrightarrow> \<not> marker_inside watch_markers pre s"
  "CHR ''y'' \<notin> set pre \<Longrightarrow> \<not> marker_inside shorts_markers pre s"
  by (induction pre) (auto simp: watch_markers_def shorts_markers_def)

lemma match_here_Some:
  "match_here alts t = Some g \<Longrightarrow>
   \<exists>m rest. m \<in> set alts \<and> t = m @ g @ rest \<and> g \<noteq> [] \<and> set g \<inter> stop_chars = {} \<and>
     (rest = [] \<or> hd rest \<in> stop_chars)"
proof (induction alts)
  case Nil
  then show ?case by simp
next
  case (Cons a alts)
  show ?case
  proof (cases "startswith t a \<and> group1 (drop (length a) t) \<noteq> []")
    case True
    with Cons.prems have g: "g = group1 (drop (length a) t)" by simp
    from True obtain r where r: "t = a @ r" by (auto simp: startswith_iff)
    define rest where "rest = dropWhile (\<lambda>c. c \<notin> stop_chars) r"
    have "r = g @ rest"
      using g r by (simp add: group1_def rest_def)
    moreover have "set g \<inter> stop_chars = {}"
      using g by (auto simp: group1_def dest: set_takeWhileD)
    moreover have "rest = [] \<or> hd rest \<in> stop_chars"
      using hd_dropWhile [of "\<lambda>c. c \<notin> stop_chars" r] by (auto simp: rest_def)
    ultimately show ?thesis using True g r by auto
  next
    case False
    with Cons show ?thesis by auto
  qed
qed

lemma re_search_Some:
  "re_search alts s = Some g \<Longrightarrow>
   \<exists>pre m rest. m \<in> set alts \<and> s = pre @ m @ g @ rest \<and> g \<noteq> [] \<and>
     set g \<inter> stop_chars = {} \<and> (rest = [] \<or> hd rest \<in> stop_chars)"
proof (induction s)
  case Nil
  then show ?case by (simp add: match_here_Nil)
next
  case (Cons c cs)
  show ?case
  proof (cases "match_here alts (c # cs)")
    case None
    with Cons obtain pre m rest where "m \<in> set alts" "cs = pre @ m @ g @ rest" "g \<noteq> []"
      "set g \<inter> stop_chars = {}" "rest = [] \<or> hd rest \<in> stop_chars"
      by auto
    then have "m \<in> set alts \<and> c # cs = (c # pre) @ m @ g @ rest \<and> g \<noteq> [] \<and>
      set g \<inter> stop_chars = {} \<and> (rest = [] \<or> hd rest \<in> stop_chars)"
      by simp
    then show ?thesis by blast
  next
    case (Some h)
    with Cons.prems have "h = g" by simp
    with Some obtain m rest where "m \<in> set alts \<and> c # cs = [] @ m @ g @ rest \<and> g \<noteq> [] \<and>
      set g \<inter> stop_chars = {} \<and> (rest = [] \<or> hd rest \<in> stop_chars)"
      using match_here_Some [of alts "c # cs" g] by auto
    then show ?thesis by blast
  qed
qed

lemma match_here_None_iff:
  "match_here alts t = None \<longleftrightarrow>
   \<not> (\<exists>m c r. m \<in> set alts \<and> t = m @ c # r \<and> c \<notin> stop_chars)"
  by (induction alts) (auto simp: startswith_iff group1_nonempty_iff)

lemma re_search_None_iff:
  "re_search alts s = None \<longleftrightarrow>
   \<not> (\<exists>pre m c r. m \<in> set alts \<and> s = pre @ m @ c # r \<and> c \<notin> stop_chars)"
proof (induction s)
  case Nil
  then show ?case by (simp add: match_here_Nil)
next
  case (Cons a s)
  have "(\<exists>pre m c r. m \<in> set alts \<and> a # s = pre @ m @ c # r \<and> c \<notin> stop_chars) \<longleftrightarrow>
        (\<exists>m c r. m \<in> set alts \<and> a # s = m @ c # r \<and> c \<notin> stop_chars) \<or>
        (\<exists>pre m c r. m \<in> set alts \<and> s = pre @ m @ c # r \<and> c \<notin> stop_chars)"
    (is "?L \<longleftrightarrow> ?A \<or> ?B")
  proof
    assume ?L
    then obtain pre m c r where h: "m \<in> set alts" "a # s = pre @ m @ c # r" "c \<notin> stop_chars"
      by blast
    show "?A \<or> ?B"
    proof (cases pre)
      case Nil
      with h show ?thesis by auto
    next
      case (Cons p ps)
      with h have "s = ps @ m @ c # r" by simp
      with h show ?thesis by blast
    qed
  next
    assume "?A \<or> ?B"
    then show ?L
    proof
      assume ?A
      then show ?L by (metis append_Nil)
    next
      assume ?B
      then show ?L by (metis append_Cons)
    qed
  qed
  then have "\<not> ?L \<longleftrightarrow> match_here alts (a # s) = None \<and> re_search alts s = None"
    using Cons match_here_None_iff [of alts "a # s"] by blast
  moreover have "re_search alts (a # s) = None \<longleftrightarrow>
      match_here alts (a # s) = None \<and> re_search alts s = None"
    by (simp split: option.splits)
  ultimately show ?case by blast
qed



subsection \<open>\<open>extract_video_id\<close>\<close>

text \<open>
  C3, as amended.  Let a URL be \<open>pre @ marker @ ident @ rest\<close>, where \<open>ident\<close> is a
  non-empty run without \<open>&\<close>, newline, \<open>?\<close> and \<open>#\<close>, and \<open>rest\<close> is empty or
  begins with one of these four characters.
  \<^item> For a marker of the first pattern (\<open>youtube.com/watch?v=\<close>, \<open>youtu.be/\<close>,
    \<open>youtube.com/embed/\<close>, \<open>youtube.com/v/\<close>, \<open>youtube.com/?v=\<close>), when none of
    these markers begins inside \<open>pre\<close>, \<open>extract_video_id\<close> returns exactly
    \<open>ident\<close>.
  \<^item> For the marker \<open>youtube.com/shorts/\<close>, when this marker does not begin inside
    \<open>pre\<close>, it returns \<open>ident\<close> provided the first pattern matches nowhere in the
    URL: the first pattern is searched through the whole string before the shorts pattern
    is tried.
  \<^item> It fails, with the \<open>ValueError\<close> "Could not extract video ID from URL: ...",
    exactly for the strings in which no marker of either pattern is followed by a
    character other than the four.
  \<^item> Whatever it returns is a non-empty run without the four characters that follows a
    marker in the URL and ends at the end of the URL or before one of the four.
\<close>

theorem extract_video_id_shapes:
  "(\<not> marker_inside watch_markers pre (m @ ident @ rest) \<and> m \<in> set watch_markers \<and>
      ident \<noteq> [] \<and> set ident \<inter> stop_chars = {} \<and> (rest = [] \<or> hd rest \<in> stop_chars)
      \<longrightarrow> extract_video_id (pre @ m @ ident @ rest) = Inr ident)
   \<and> (\<not> marker_inside shorts_markers pre (''youtube.com/shorts/'' @ ident @ rest) \<and>
      re_search watch_markers (pre @ ''youtube.com/shorts/'' @ ident @ rest) = None \<and>
      ident \<noteq> [] \<and> set ident \<inter> stop_chars = {} \<and> (rest = [] \<or> hd rest \<in> stop_chars)
      \<longrightarrow> extract_video_id (pre @ ''youtube.com/shorts/'' @ ident @ rest) = Inr ident)
   \<and> (extract_video_id url = Inl (ValueError (''Could not extract video ID from URL: '' @ url))
      \<longleftrightarrow> \<not> (\<exists>before mk c after. mk \<in> set watch_markers \<union> set shorts_markers \<and>
                url = before @ mk @ c # after \<and> c \<notin> stop_chars))
   \<and> (extract_video_id url = Inr g
      \<longrightarrow> (\<exists>before mk after. mk \<in> set watch_markers \<union> set shorts_markers \<and>
                url = before @ mk @ g @ after \<and> g \<noteq> [] \<and> set g \<inter> stop_chars = {} \<and>
                (after = [] \<or> hd after \<in> stop_chars)))"
proof (intro conjI impI)
  assume h: "\<not> marker_inside watch_markers pre (m @ ident @ rest) \<and> m \<in> set watch_markers \<and>
      ident \<noteq> [] \<and> set ident \<inter> stop_chars = {} \<and> (rest = [] \<or> hd rest \<in> stop_chars)"
  then have "group1 (ident @ rest) = ident"
    by (simp add: group1_run)
  with h have "re_search watch_markers (m @ ident @ rest) = Some ident"
    using re_search_watch_marker [of m "ident @ rest"] by simp
  with h have "re_search watch_markers (pre @ m @ ident @ rest) = Some ident"
    by (simp add: re_search_past)
  then show "extract_video_id (pre @ m @ ident @ rest) = Inr ident"
    by (simp add: extract_video_id_def patterns_def)
next
  assume h: "\<not> marker_inside shorts_markers pre (''youtube.com/shorts/'' @ ident @ rest) \<and>
      re_search watch_markers (pre @ ''youtube.com/shorts/'' @ ident @ rest) = None \<and>
      ident \<noteq> [] \<and> set ident \<inter> stop_chars = {} \<and> (rest = [] \<or> hd rest \<in> stop_chars)"
  then have "group1 (ident @ rest) = ident"
    by (simp add: group1_run)
  with h have "re_search shorts_markers (''youtube.com/shorts/'' @ ident @ rest) = Some ident"
    using re_search_shorts_marker [of "ident @ rest"] by simp
  with h have "re_search shorts_markers (pre @ ''youtube.com/shorts/'' @ ident @ rest) = Some ident"
    using re_search_past [of shorts_markers pre "''youtube.com/shorts/'' @ ident @ rest"] by simp
  with h show "extract_video_id (pre @ ''youtube.com/shorts/'' @ ident @ rest) = Inr ident"
    by (simp add: extract_video_id_def patterns_def)
next
  have "extract_video_id url = Inl (ValueError (''Could not extract video ID from URL: '' @ url))
      \<longleftrightarrow> re_search watch_markers url = None \<and> re_search shorts_markers url = None"
    by (simp add: extract_video_id_def patterns_def split: option.splits)
  also have "\<dots> \<longleftrightarrow> \<not> (\<exists>before mk c after. mk \<in> set watch_markers \<union> set shorts_markers \<and>
      url = before @ mk @ c # after \<and> c \<notin> stop_chars)"
    unfolding re_search_None_iff by blast
  finally show "extract_video_id url =
      Inl (ValueError (''Could not extract video ID from URL: '' @ url))
      \<longleftrightarrow> \<not> (\<exists>before mk c after. mk \<in> set watch_markers \<union> set shorts_markers \<and>
                url = before @ mk @ c # after \<and> c \<notin> stop_chars)" .
next
  assume r: "extract_video_id url = Inr g"
  then have "re_search watch_markers url = Some g \<or> re_search shorts_markers url = Some g"
    by (auto simp: extract_video_id_def patterns_def split: option.splits)
  then show "\<exists>before mk after. mk \<in> set watch_markers \<union> set shorts_markers \<and>
      url = before @ mk @ g @ after \<and> g \<noteq> [] \<and> set g \<inter> stop_chars = {} \<and>
      (after = [] \<or> hd after \<in> stop_chars)"
    using re_search_Some [of watch_markers url g] re_search_Some [of shorts_markers url g]
    by blast
qed

text \<open>
  The theorem at a watch link with a trailing parameter, a shorts link with a trailing
  parameter, and a string that matches no pattern.
\<close>

theorem extract_video_id_shapes_witness:
  "extract_video_id ''https://www.youtube.com/watch?v=dQw4w9WgXcQ&feature=share'' = Inr ''dQw4w9WgXcQ''
   \<and> extract_video_id ''https://youtube.com/shorts/abc?feature=share'' = Inr ''abc''
   \<and> extract_video_id ''https://example.com/video'' =
       Inl (ValueError ''Could not extract video ID from URL: https://example.com/video'')"
proof -
  have "re_search watch_markers ''https://example.com/video'' = None"
    and "re_search shorts_markers ''https://example.com/video'' = None"
    by (simp_all add: url_defs)
  then have none: "\<not> (\<exists>before mk c after. mk \<in> set watch_markers \<union> set shorts_markers \<and>
      ''https://example.com/video'' = before @ mk @ c # after \<and> c \<notin> stop_chars)"
    unfolding re_search_None_iff by blast
  have w: "re_search watch_markers (''https://'' @ ''youtube.com/shorts/'' @ ''abc'' @ ''?feature=share'')
      = None"
    by (simp add: url_defs)
  show ?thesis
    using none w
      extract_video_id_shapes [where pre = "''https://www.''" and m = "''youtube.com/watch?v=''"
        and ident = "''dQw4w9WgXcQ''" and rest = "''&feature=share''"
        and url = "''https://example.com/video''"]
      extract_video_id_shapes [where pre = "''https://''" and ident = "''abc''"
        and rest = "''?feature=share''"]
    by (simp add: watch_markers_def shorts_markers_def stop_chars_def)
qed

text \<open>
  C3 as stated fails: this shorts link with a trailing query parameter has the
  identifier \<open>abc\<close>, and \<open>extract_video_id\<close> returns \<open>xyz\<close>, the group of the first
  pattern's match \<open>youtu.be/xyz\<close> inside the query.
\<close>

theorem extract_video_id_shorts_counterexample:
  "extract_video_id ''https://youtube.com/shorts/abc?u=youtu.be/xyz'' = Inr ''xyz''
   \<and> extract_video_id ''https://youtube.com/shorts/abc?u=youtu.be/xyz'' \<noteq> Inr ''abc''"
  by (simp add: url_defs)



subsection \<open>\<open>get_transcript\<close>\<close>

text \<open>
  C2.  An input without the markers \<open>youtube.com\<close> and \<open>youtu.be\<close> is itself the
  identifier sent to the captioning service; an input with one of them is sent through
  \<open>extract_video_id\<close> first and the extracted identifier is sent.  In both cases the
  service is called once with the given languages; its transcript is returned as it is,
  and an exception with message \<open>msg\<close> becomes the \<open>ValueError\<close>
  "Could not retrieve transcript: msg".
\<close>

theorem get_transcript_routing:
  "(\<not> py_in ''youtube.com'' s \<and> \<not> py_in ''youtu.be'' s \<and>
      youtube_get_transcript w s langs = Inr t
      \<longrightarrow> get_transcript w s langs = ([GetTranscript s langs], Inr t))
   \<and> (\<not> py_in ''youtube.com'' s \<and> \<not> py_in ''youtu.be'' s \<and>
      youtube_get_transcript w s langs = Inl msg
      \<longrightarrow> get_transcript w s langs =
            ([GetTranscript s langs],
             Inl (ValueError (''Could not retrieve transcript: '' @ msg))))
   \<and> ((py_in ''youtube.com'' s \<or> py_in ''youtu.be'' s) \<and> extract_video_id s = Inr v \<and>
      youtube_get_transcript w v langs = Inr t
      \<longrightarrow> get_transcript w s langs = ([GetTranscript v langs], Inr t))
   \<and> ((py_in ''youtube.com'' s \<or> py_in ''youtu.be'' s) \<and> extract_video_id s = Inr v \<and>
      youtube_get_transcript w v langs = Inl msg
      \<longrightarrow> get_transcript w s langs =
            ([GetTranscript v langs],
             Inl (ValueError (''Could not retrieve transcript: '' @ msg))))"
  by (simp add: get_transcript_def)


text \<open>
  The four cases of the theorem in the concrete world: a bare identifier with and without
  captions, and a link with and without captions.
\<close>

theorem get_transcript_routing_witness:
  "get_transcript mock_world ''abc'' [''en''] =
     ([GetTranscript ''abc'' [''en'']],
      Inr [\<lparr>seg_text = ''Hello'', seg_start = 0, seg_duration = 1\<rparr>,
           \<lparr>seg_text = ''world'', seg_start = 1, seg_duration = 1\<rparr>])
   \<and> get_transcript mock_world ''zzz'' [''en''] =
     ([GetTranscript ''zzz'' [''en'']],
      Inl (ValueError ''Could not retrieve transcript: no captions''))
   \<and> get_transcript mock_world ''https://youtu.be/empty?t=3'' [''en''] =
     ([GetTranscript ''empty'' [''en'']], Inr [])
   \<and> get_transcript mock_world ''https://www.youtube.com/watch?v=zzz'' [''en'', ''fr''] =
     ([GetTranscript ''zzz'' [''en'', ''fr'']],
      Inl (ValueError ''Could not retrieve transcript: no captions''))"
  using get_transcript_routing [where w = mock_world and s = "''abc''" and langs = "[''en'']"
      and t = "[\<lparr>seg_text = ''Hello'', seg_start = 0, seg_duration = 1\<rparr>,
                \<lparr>seg_text = ''world'', seg_start = 1, seg_duration = 1\<rparr>]"]
    get_transcript_routing [where w = mock_world and s = "''zzz''" and langs = "[''en'']"
      and msg = "''no captions''"]
    get_transcript_routing [where w = mock_world and s = "''https://youtu.be/empty?t=3''"
      and langs = "[''en'']" and v = "''empty''" and t = "[]"]
    get_transcript_routing [where w = mock_world and s = "''https://www.youtube.com/watch?v=zzz''"
      and langs = "[''en'', ''fr'']" and v = "''zzz''" and msg = "''no captions''"]
  by (simp add: mock_world_def url_defs)


text \<open>
  C10.  An input that has a domain marker and matches neither URL pattern fails with the
  \<open>ValueError\<close> of \<open>extract_video_id\<close>, "Could not extract video ID from URL: ...",
  and the captioning service is not called.  Conversely, whenever \<open>get_transcript\<close> fails
  with "Could not retrieve transcript: msg", the captioning service was called and raised
  an exception with the message \<open>msg\<close>.
\<close>

theorem get_transcript_invalid_url:
  "((py_in ''youtube.com'' s \<or> py_in ''youtu.be'' s) \<and>
      re_search watch_markers s = None \<and> re_search shorts_markers s = None
      \<longrightarrow> get_transcript w s langs =
            ([], Inl (ValueError (''Could not extract video ID from URL: '' @ s))))
   \<and> (snd (get_transcript w s langs) =
        Inl (ValueError (''Could not retrieve transcript: '' @ msg))
      \<longrightarrow> (\<exists>v. fst (get_transcript w s langs) = [GetTranscript v langs] \<and>
               youtube_get_transcript w v langs = Inl msg))"
proof (intro conjI impI)
  assume "(py_in ''youtube.com'' s \<or> py_in ''youtu.be'' s) \<and>
      re_search watch_markers s = None \<and> re_search shorts_markers s = None"
  then show "get_transcript w s langs =
      ([], Inl (ValueError (''Could not extract video ID from URL: '' @ s)))"
    by (auto simp: get_transcript_def extract_video_id_def patterns_def)
next
  assume r: "snd (get_transcript w s langs) =
      Inl (ValueError (''Could not retrieve transcript: '' @ msg))"
  define r0 where "r0 = (if py_in ''youtube.com'' s \<or> py_in ''youtu.be'' s
      then extract_video_id s else Inr s)"
  show "\<exists>v. fst (get_transcript w s langs) = [GetTranscript v langs] \<and>
      youtube_get_transcript w v langs = Inl msg"
  proof (cases r0)
    case (Inl e)
    then have "e = ValueError (''Could not extract video ID from URL: '' @ s)"
      by (auto simp: r0_def extract_video_id_def split: if_splits option.splits)
    with Inl r show ?thesis
      by (simp add: get_transcript_def r0_def [symmetric])
  next
    case (Inr v)
    with r show ?thesis
      by (auto simp: get_transcript_def r0_def [symmetric] split: sum.splits)
  qed
qed


text \<open>
  The theorem at a link of the hosting domain without an identifier, and at an identifier
  the service has no captions for.
\<close>

theorem get_transcript_invalid_url_witness:
  "get_transcript mock_world ''https://www.youtube.com/'' [''en''] =
     ([], Inl (ValueError ''Could not extract video ID from URL: https://www.youtube.com/''))
   \<and> (\<exists>v. fst (get_transcript mock_world ''zzz'' [''en'']) = [GetTranscript v [''en'']] \<and>
          youtube_get_transcript mock_world v [''en''] = Inl ''no captions'')"
  using get_transcript_invalid_url [where w = mock_world and s = "''https://www.youtube.com/''"
      and langs = "[''en'']"]
    get_transcript_invalid_url [where w = mock_world and s = "''zzz''" and langs = "[''en'']"
      and msg = "''no captions''"]
  by (simp add: mock_world_def get_transcript_def url_defs)


subsection \<open>\<open>get_transcript_text\<close>\<close>

text \<open>
  C5.  When \<open>get_transcript\<close> returns the segments \<open>segs\<close>, \<open>get_transcript_text\<close>
  returns the text of the first segment followed, for every later segment in order, by one
  space and the text of that segment: nothing is trimmed, dropped or changed.  For no
  segment at all the result is the empty string, not an error.
\<close>

theorem get_transcript_text_joins:
  "(get_transcript w s langs = (cs, Inr segs)
      \<longrightarrow> get_transcript_text w s langs =
            (cs, Inr (case segs of
                        [] \<Rightarrow> []
                      | x # xs \<Rightarrow> seg_text x @ concat (map (\<lambda>y. CHR '' '' # seg_text y) xs))))
   \<and> (get_transcript w s langs = (cs, Inr []) \<longrightarrow> get_transcript_text w s langs = (cs, Inr []))"
proof -
  have j: "py_join '' '' (x # xs) = x @ concat (map (\<lambda>y. CHR '' '' # y) xs)" for x xs
    by (induction xs arbitrary: x) auto
  show ?thesis
    by (auto simp: get_transcript_text_def j comp_def split: list.splits)
qed


text \<open>
  The theorem at the video with the segments "Hello" and "world", and at the video
  without segments.
\<close>

theorem get_transcript_text_joins_witness:
  "get_transcript_text mock_world ''abc'' [''en''] =
     ([GetTranscript ''abc'' [''en'']], Inr ''Hello world'')
   \<and> get_transcript_text mock_world ''https://youtu.be/empty'' [''en''] =
     ([GetTranscript ''empty'' [''en'']], Inr [])"
  using get_transcript_text_joins [where w = mock_world and s = "''abc''" and langs = "[''en'']"
      and cs = "[GetTranscript ''abc'' [''en'']]"
      and segs = "[\<lparr>seg_text = ''Hello'', seg_start = 0, seg_duration = 1\<rparr>,
                   \<lparr>seg_text = ''world'', seg_start = 1, seg_duration = 1\<rparr>]"]
    get_transcript_text_joins [where w = mock_world and s = "''https://youtu.be/empty''"
      and langs = "[''en'']" and cs = "[GetTranscript ''empty'' [''en'']]" and segs = "[]"]
  by (simp add: mock_world_def get_transcript_def url_defs)



section \<open>Properties of the module \<open>summarizer\<close>\<close>

subsection \<open>Standard-library strings\<close>

lemma str_int_50: "str_int 50 = ''50''"
  by code_simp

lemma lower_OLLAMA: "lower ''OLLAMA'' = ''ollama''"
  by code_simp





















subsection \<open>The prompts\<close>

lemmas summarize_defs = OllamaProvider_summarize_def OpenAIProvider_summarize_def
  AnthropicProvider_summarize_def Let_def

text \<open>
  C6.  For every text and each of the three variants: with \<open>max_length = 50\<close> the
  prompt (local model) or user message (hosted variants) sent to the backend is the
  template with the text followed by the length clause naming 50, "(Please keep the summary
  under 50 words)" for the local model and "Keep the summary under 50 words." for the
  hosted variants; with \<open>max_length = None\<close> it is the template with the text and
  nothing after it.
\<close>

theorem summarize_max_length_50:
  "fst (summarize w (OllamaProvider m) doc None) =
     [OllamaGenerate m
        (''Please provide a concise summary of the following transcript.\<newline>Focus on the main points and key insights.\<newline>\<newline>TRANSCRIPT:\<newline>''
         @ doc @ ''\<newline>\<newline>SUMMARY:'')]
   \<and> fst (summarize w (OllamaProvider m) doc (Some 50)) =
     [OllamaGenerate m
        (''Please provide a concise summary of the following transcript.\<newline>Focus on the main points and key insights.\<newline>\<newline>TRANSCRIPT:\<newline>''
         @ doc @ ''\<newline>\<newline>SUMMARY:'' @ ''\<newline>(Please keep the summary under 50 words)'')]
   \<and> fst (summarize w (OpenAIProvider m k) doc None) =
     [ChatCompletionsCreate k m
        ''You are a helpful assistant that summarizes transcripts concisely.''
        (''Please summarize the following transcript:\<newline>\<newline>'' @ doc)]
   \<and> fst (summarize w (OpenAIProvider m k) doc (Some 50)) =
     [ChatCompletionsCreate k m
        ''You are a helpful assistant that summarizes transcripts concisely.''
        (''Please summarize the following transcript:\<newline>\<newline>'' @ doc
         @ ''\<newline>\<newline>Keep the summary under 50 words.'')]
   \<and> fst (summarize w (AnthropicProvider m k) doc None) =
     [MessagesCreate k m
        ''Summarize the provided transcript concisely, focusing on key points and insights.''
        (''Here is the transcript to summarize:\<newline>\<newline>'' @ doc)]
   \<and> fst (summarize w (AnthropicProvider m k) doc (Some 50)) =
     [MessagesCreate k m
        ''Summarize the provided transcript concisely, focusing on key points and insights.''
        (''Here is the transcript to summarize:\<newline>\<newline>'' @ doc
         @ ''\<newline>\<newline>Keep the summary under 50 words.'')]"
  by (simp add: summarize_defs str_int_50)

text \<open>
  C9.  For every variant, \<open>max_length = 0\<close> gives the calls and the result of
  \<open>max_length = None\<close>: the prompt or user message is the template with the text and
  no length clause.
\<close>

theorem summarize_zero_max_length:
  "summarize w p doc (Some 0) = summarize w p doc None
   \<and> fst (summarize w (OllamaProvider m) doc (Some 0)) =
     [OllamaGenerate m
        (''Please provide a concise summary of the following transcript.\<newline>Focus on the main points and key insights.\<newline>\<newline>TRANSCRIPT:\<newline>''
         @ doc @ ''\<newline>\<newline>SUMMARY:'')]
   \<and> fst (summarize w (OpenAIProvider m k) doc (Some 0)) =
     [ChatCompletionsCreate k m
        ''You are a helpful assistant that summarizes transcripts concisely.''
        (''Please summarize the following transcript:\<newline>\<newline>'' @ doc)]
   \<and> fst (summarize w (AnthropicProvider m k) doc (Some 0)) =
     [MessagesCreate k m
        ''Summarize the provided transcript concisely, focusing on key points and insights.''
        (''Here is the transcript to summarize:\<newline>\<newline>'' @ doc)]"
  by (cases p) (simp_all add: summarize_defs)

subsection \<open>Constructing a hosted provider\<close>


text \<open>
  C4, as amended.  With no credential argument and the provider's environment variable
  unset, constructing \<open>OpenAIProvider\<close> or \<open>AnthropicProvider\<close> fails with the
  \<open>ValueError\<close> "... API key is required ..." and no call has been made.  With a
  non-empty credential argument, and the provider's SDK package importable, construction
  succeeds with that credential whatever the environment holds.  An empty string as the
  credential argument acts as no argument.
\<close>

theorem hosted_provider_credential:
  "(environ w ''OPENAI_API_KEY'' = None
      \<longrightarrow> OpenAIProvider_init w m None =
            ([], Inl (ValueError
               ''OpenAI API key is required. Set OPENAI_API_KEY environment variable or pass explicitly.'')))
   \<and> (environ w ''ANTHROPIC_API_KEY'' = None
      \<longrightarrow> AnthropicProvider_init w m None =
            ([], Inl (ValueError
               ''Anthropic API key is required. Set ANTHROPIC_API_KEY environment variable or pass explicitly.'')))
   \<and> (k \<noteq> [] \<and> openai_importable w
      \<longrightarrow> OpenAIProvider_init (w\<lparr>environ := env\<rparr>) m (Some k) =
            ([NewOpenAIClient k], Inr (OpenAIProvider m k)))
   \<and> (k \<noteq> [] \<and> anthropic_importable w
      \<longrightarrow> AnthropicProvider_init (w\<lparr>environ := env\<rparr>) m (Some k) =
            ([NewAnthropicClient k], Inr (AnthropicProvider m k)))
   \<and> OpenAIProvider_init w m (Some []) = OpenAIProvider_init w m None
   \<and> AnthropicProvider_init w m (Some []) = AnthropicProvider_init w m None"
  by (simp add: OpenAIProvider_init_def AnthropicProvider_init_def py_or_def getenv_def)

text \<open>
  The theorem in the concrete world: no argument and no variable, and an argument given
  while the variable holds another credential.
\<close>

theorem hosted_provider_credential_witness:
  "OpenAIProvider_init mock_world ''gpt-3.5-turbo'' None =
     ([], Inl (ValueError
        ''OpenAI API key is required. Set OPENAI_API_KEY environment variable or pass explicitly.''))
   \<and> AnthropicProvider_init mock_world ''claude-3-haiku-20240307'' None =
     ([], Inl (ValueError
        ''Anthropic API key is required. Set ANTHROPIC_API_KEY environment variable or pass explicitly.''))
   \<and> OpenAIProvider_init (mock_world\<lparr>environ := [''OPENAI_API_KEY'' \<mapsto> ''sk-env'']\<rparr>)
       ''gpt-3.5-turbo'' (Some ''sk-arg'') =
     ([NewOpenAIClient ''sk-arg''], Inr (OpenAIProvider ''gpt-3.5-turbo'' ''sk-arg''))
   \<and> AnthropicProvider_init (mock_world\<lparr>environ := [''ANTHROPIC_API_KEY'' \<mapsto> ''sk-env'']\<rparr>)
       ''claude-3-haiku-20240307'' (Some ''sk-arg'') =
     ([NewAnthropicClient ''sk-arg''], Inr (AnthropicProvider ''claude-3-haiku-20240307'' ''sk-arg''))"
  using hosted_provider_credential [where w = mock_world and m = "''gpt-3.5-turbo''"
      and k = "''sk-arg''" and env = "[''OPENAI_API_KEY'' \<mapsto> ''sk-env'']"]
    hosted_provider_credential [where w = mock_world and m = "''claude-3-haiku-20240307''"
      and k = "''sk-arg''" and env = "[''ANTHROPIC_API_KEY'' \<mapsto> ''sk-env'']"]
  by (simp add: mock_world_def)

text \<open>
  C4 as stated fails for the explicit credential \<open>""\<close>: construction fails when the
  variable is unset, and takes the credential of the environment when it is set.
\<close>

theorem hosted_provider_empty_credential_counterexample:
  "OpenAIProvider_init mock_world ''gpt-3.5-turbo'' (Some []) =
     ([], Inl (ValueError
        ''OpenAI API key is required. Set OPENAI_API_KEY environment variable or pass explicitly.''))
   \<and> OpenAIProvider_init (mock_world\<lparr>environ := [''OPENAI_API_KEY'' \<mapsto> ''sk-env'']\<rparr>)
       ''gpt-3.5-turbo'' (Some []) =
     ([NewOpenAIClient ''sk-env''], Inr (OpenAIProvider ''gpt-3.5-turbo'' ''sk-env''))"
  by (simp add: mock_world_def OpenAIProvider_init_def py_or_def getenv_def)

subsection \<open>\<open>get_provider\<close>\<close>

text \<open>
  The selector: a non-empty argument as it is, else the value of \<open>SUMMARY_PROVIDER\<close>
  in lower case, else \<open>ollama\<close>.
\<close>

lemma selector_precedence:
  "n \<noteq> [] \<Longrightarrow> selector w (Some n) = n"
  "environ w ''SUMMARY_PROVIDER'' = Some v \<Longrightarrow> selector w None = lower v"
  "environ w ''SUMMARY_PROVIDER'' = None \<Longrightarrow> selector w None = ''ollama''"
  "selector w (Some []) = selector w None"
  by (simp_all add: selector_def py_or_str_def getenv_default_def, code_simp)

lemma get_provider_default:
  "environ w ''SUMMARY_PROVIDER'' = None \<Longrightarrow>
   get_provider w None kwargs =
     ([], Inr (OllamaProvider
        (py_or_str (kwargs ''model_name'') (getenv_default w ''OLLAMA_MODEL'' ''llama3.2''))))"
  by (simp add: get_provider_def selector_precedence OllamaProvider_init_def)

lemma get_provider_env_uppercase:
  "environ w ''SUMMARY_PROVIDER'' = Some ''OLLAMA'' \<Longrightarrow>
   get_provider w None kwargs =
     ([], Inr (OllamaProvider
        (py_or_str (kwargs ''model_name'') (getenv_default w ''OLLAMA_MODEL'' ''llama3.2''))))"
  by (simp add: get_provider_def selector_precedence lower_OLLAMA OllamaProvider_init_def)

text \<open>
  C1 at the explicit selector \<open>OLLAMA\<close>: the argument is compared as it is, so
  \<open>get_provider\<close> fails with "Unknown provider: OLLAMA", while the same value read
  from \<open>SUMMARY_PROVIDER\<close> selects the local model (\<open>get_provider_env_uppercase\<close>).
\<close>

theorem get_provider_explicit_uppercase:
  "get_provider w (Some ''OLLAMA'') kwargs = ([], Inl (ValueError ''Unknown provider: OLLAMA''))"
  by (simp add: get_provider_def selector_def py_or_str_def Let_def)

text \<open>
  C8.  When the selector, resolved as in line 201, is none of \<open>ollama\<close>, \<open>openai\<close>
  and \<open>anthropic\<close>, \<open>get_provider\<close> fails with the \<open>ValueError\<close>
  "Unknown provider: " followed by that selector, and the list of calls is empty: no client
  is constructed.  A non-empty argument is its own selector.
\<close>

theorem get_provider_unknown:
  "(selector w pn \<notin> {''ollama'', ''openai'', ''anthropic''}
      \<longrightarrow> get_provider w pn kwargs =
            ([], Inl (ValueError (''Unknown provider: '' @ selector w pn))))
   \<and> (n \<noteq> [] \<and> n \<notin> {''ollama'', ''openai'', ''anthropic''}
      \<longrightarrow> get_provider w (Some n) kwargs = ([], Inl (ValueError (''Unknown provider: '' @ n))))"
  by (auto simp: get_provider_def selector_def py_or_str_def Let_def)

text \<open>The theorem at the explicit selector \<open>unknown-x\<close>.\<close>

theorem get_provider_unknown_witness:
  "selector mock_world (Some ''unknown-x'') \<notin> {''ollama'', ''openai'', ''anthropic''}
   \<and> get_provider mock_world (Some ''unknown-x'') Map.empty =
       ([], Inl (ValueError ''Unknown provider: unknown-x''))"
  using get_provider_unknown [where w = mock_world and pn = "Some ''unknown-x''"
      and n = "''unknown-x''" and kwargs = Map.empty]
  by (simp add: selector_def py_or_str_def)

subsection \<open>\<open>summarize_text\<close>\<close>



end
